theory Spec2Isabelle
  imports Main
begin

section \<open>Python values, exceptions and strings\<close>

text \<open>
  The values that travel through \<^verbatim>\<open>bustard/orm.py\<close> as column values, defaults and bound
  arguments: \<^verbatim>\<open>None\<close>, booleans, unbounded integers and strings.
\<close>

datatype pyval = PNone | PBool bool | PInt int | PStr string

text \<open>
  Every exception the modelled code can raise is a value. \<open>DriverError\<close> stands for anything
  raised by the database driver (\<^verbatim>\<open>psycopg2\<close>), which the module never inspects.
\<close>

datatype error =
    AttributeError string
  | KeyError string
  | IndexError string
  | TypeError string
  | DriverError string

definition nl :: string where
  "nl = [CHR 0x0A]"

text \<open>\<^verbatim>\<open>sep.join(xs)\<close> of Python.\<close>

fun join :: "string \<Rightarrow> string list \<Rightarrow> string" where
  "join sep [] = []"
| "join sep [x] = x"
| "join sep (x # y # ys) = x @ sep @ join sep (y # ys)"

text \<open>Decimal rendering of integers, as \<^verbatim>\<open>str\<close> and \<^verbatim>\<open>format\<close> produce it.\<close>

fun str_nat :: "nat \<Rightarrow> string" where
  "str_nat n = (if n < 10 then [''0123456789'' ! n]
                else str_nat (n div 10) @ [''0123456789'' ! (n mod 10)])"

declare str_nat.simps [simp del]

definition str_int :: "int \<Rightarrow> string" where
  "str_int i = (if i < 0 then ''-'' @ str_nat (nat (- i)) else str_nat (nat i))"

text \<open>\<^verbatim>\<open>str.upper\<close> on the ASCII letters.\<close>

definition upper_char :: "char \<Rightarrow> char" where
  "upper_char c = (case map_of (zip ''abcdefghijklmnopqrstuvwxyz'' ''ABCDEFGHIJKLMNOPQRSTUVWXYZ'') c of
                     Some u \<Rightarrow> u | None \<Rightarrow> c)"

definition upper :: "string \<Rightarrow> string" where
  "upper s = map upper_char s"

text \<open>\<^verbatim>\<open>str(v)\<close>, which is also what \<^verbatim>\<open>'{}'.format(v)\<close> renders.\<close>

fun py_str :: "pyval \<Rightarrow> string" where
  "py_str PNone = ''None''"
| "py_str (PBool b) = (if b then ''True'' else ''False'')"
| "py_str (PInt i) = str_int i"
| "py_str (PStr s) = s"

text \<open>Rendering of an attribute that holds a string or \<^verbatim>\<open>None\<close>.\<close>

fun str_opt :: "string option \<Rightarrow> string" where
  "str_opt None = ''None''"
| "str_opt (Some s) = s"



section \<open>ForeignKey\<close>

text \<open>
  The attributes of a \<^verbatim>\<open>ForeignKey\<close> after its constructor has split the
  \<^verbatim>\<open>table.column\<close> string; \<open>onupdate\<close> and \<open>ondelete\<close> are a string or \<^verbatim>\<open>None\<close>.
\<close>

record foreign_key =
  fk_table_name :: string
  fk_column_name :: string
  onupdate :: "string option"
  ondelete :: "string option"


section \<open>Field\<close>

text \<open>The concrete subclasses of \<^verbatim>\<open>Field\<close>, each with its \<^verbatim>\<open>data_type\<close> class attribute.\<close>

datatype field_class =
    TextField | CharField | IntegerField | DateField | DateTimeField
  | BooleanField | UUIDField | JSONField | AutoField


text \<open>\<^verbatim>\<open>isinstance(self, TextField)\<close>: \<^verbatim>\<open>CharField\<close> derives from \<^verbatim>\<open>TextField\<close>.\<close>

fun isinstance_TextField :: "field_class \<Rightarrow> bool" where
  "isinstance_TextField TextField = True"
| "isinstance_TextField CharField = True"
| "isinstance_TextField _ = False"

text \<open>
  The \<^verbatim>\<open>default\<close> argument is a plain value (\<^verbatim>\<open>None\<close> when not given) or a callable taking
  no argument.
\<close>

datatype default_arg = Literal pyval | Producer "unit \<Rightarrow> pyval"

fun callable :: "default_arg \<Rightarrow> bool" where
  "callable (Literal v) = False"
| "callable (Producer g) = True"

text \<open>
  A \<^verbatim>\<open>Field\<close> object. The first ten attributes are set by \<^verbatim>\<open>__init__\<close>; \<open>attr_name\<close> (the
  source's \<^verbatim>\<open>_name\<close>), \<open>table_name\<close> and \<open>sql_column\<close> do not exist until the metaclass
  attaches the field to a model, hence \<open>None\<close> for a field that is not attached.
\<close>

record field =
  cls :: field_class
  name :: "string option"
  max_length :: "int option"
  default_arg :: default_arg
  server_default :: pyval
  unique :: bool
  nullable :: bool
  index :: bool
  primary_key :: bool
  foreign_key :: "foreign_key option"
  attr_name :: "string option"
  table_name :: "string option"
  sql_column :: "string option"

definition Field_init ::
  "field_class \<Rightarrow> string option \<Rightarrow> int option \<Rightarrow> default_arg \<Rightarrow> pyval \<Rightarrow> bool \<Rightarrow> bool \<Rightarrow> bool \<Rightarrow> bool
     \<Rightarrow> foreign_key option \<Rightarrow> field" where
  "Field_init c nm ml d sd u n i pk fk =
     \<lparr> cls = c, name = nm, max_length = ml, default_arg = d,
       server_default = (case sd of PBool b \<Rightarrow> PStr (upper (py_str (PBool b))) | _ \<Rightarrow> sd),
       unique = u, nullable = n, index = i, primary_key = pk, foreign_key = fk,
       attr_name = None, table_name = None, sql_column = None \<rparr>"


definition default_value :: "field \<Rightarrow> pyval" where
  "default_value f =
     (let value = (case default_arg f of Literal v \<Rightarrow> v | Producer g \<Rightarrow> g ()) in
      case default_arg f of
        Literal PNone \<Rightarrow> (if isinstance_TextField (cls f) then PStr ''None'' else value)
      | _ \<Rightarrow> value)"

subsection \<open>Comparison-expression builders\<close>

text \<open>
  The builders render a template with \<^verbatim>\<open>str.format(self)\<close>. A template is kept as its
  sequence of pieces: literal text, a positional replacement field with an attribute
  (\<^verbatim>\<open>{0.attr}\<close>, and \<^verbatim>\<open>{.attr}\<close>, which is auto-numbered to argument 0 when it is the
  only field), and a keyword replacement field (\<^verbatim>\<open>{name}\<close>), which is looked up among the
  keyword arguments of the call.
\<close>

datatype fmt_piece = Lit string | PosAttr nat string | KwField string

text \<open>
  A positional argument is represented by its attribute lookup, rendered as text; it raises
  \<open>AttributeError\<close> for an attribute the object does not have.
\<close>

type_synonym fmt_arg = "string \<Rightarrow> error + string"

fun fmt_field :: "fmt_piece \<Rightarrow> fmt_arg list \<Rightarrow> (string \<times> string) list \<Rightarrow> error + string" where
  "fmt_field (Lit s) args kwargs = Inr s"
| "fmt_field (PosAttr n a) args kwargs =
     (if n < length args then (args ! n) a else Inl (IndexError ''tuple index out of range''))"
| "fmt_field (KwField k) args kwargs =
     (case map_of kwargs k of None \<Rightarrow> Inl (KeyError k) | Some v \<Rightarrow> Inr v)"

fun str_format :: "fmt_piece list \<Rightarrow> fmt_arg list \<Rightarrow> (string \<times> string) list \<Rightarrow> error + string" where
  "str_format [] args kwargs = Inr []"
| "str_format (p # ps) args kwargs =
     (case fmt_field p args kwargs of
        Inl e \<Rightarrow> Inl e
      | Inr s \<Rightarrow> (case str_format ps args kwargs of Inl e \<Rightarrow> Inl e | Inr r \<Rightarrow> Inr (s @ r)))"

text \<open>The attributes of a field that the templates of the builders read.\<close>

definition Field_attr :: "field \<Rightarrow> fmt_arg" where
  "Field_attr f a =
     (if a = ''sql_column'' then
        (case sql_column f of None \<Rightarrow> Inl (AttributeError a) | Some s \<Rightarrow> Inr s)
      else if a = ''table_name'' then
        (case table_name f of None \<Rightarrow> Inl (AttributeError a) | Some s \<Rightarrow> Inr s)
      else if a = ''name'' then Inr (str_opt (name f))
      else Inl (AttributeError a))"

definition with_value :: "error + string \<Rightarrow> pyval \<Rightarrow> error + (string \<times> pyval)" where
  "with_value r v = (case r of Inl e \<Rightarrow> Inl e | Inr s \<Rightarrow> Inr (s, v))"

definition Field_lt :: "field \<Rightarrow> pyval \<Rightarrow> error + (string \<times> pyval)" where
  "Field_lt f v = with_value (str_format [PosAttr 0 ''sql_column'', Lit '' < %s''] [Field_attr f] []) v"

definition Field_eq :: "field \<Rightarrow> pyval \<Rightarrow> error + (string \<times> pyval)" where
  "Field_eq f v = with_value (str_format [KwField ''sql_column'', Lit '' = %s''] [Field_attr f] []) v"

definition Field_ne :: "field \<Rightarrow> pyval \<Rightarrow> error + (string \<times> pyval)" where
  "Field_ne f v = with_value (str_format [PosAttr 0 ''sql_column'', Lit '' != %s''] [Field_attr f] []) v"

definition Field_gt :: "field \<Rightarrow> pyval \<Rightarrow> error + (string \<times> pyval)" where
  "Field_gt f v = with_value (str_format [PosAttr 0 ''sql_column'', Lit '' > %s''] [Field_attr f] []) v"

definition Field_like :: "field \<Rightarrow> pyval \<Rightarrow> error + (string \<times> pyval)" where
  "Field_like f v = with_value (str_format [PosAttr 0 ''sql_column'', Lit '' LIKE %s''] [Field_attr f] []) v"

definition Field_desc :: "field \<Rightarrow> error + string" where
  "Field_desc f = str_format [PosAttr 0 ''sql_column'', Lit '' DESC''] [Field_attr f] []"

section \<open>Index and the metadata registry\<close>

record db_index =
  ix_name :: string
  ix_table_name :: string
  ix_column_name :: string
  ix_unique :: bool

definition Index_init :: "string \<Rightarrow> string \<Rightarrow> string \<Rightarrow> bool \<Rightarrow> db_index" where
  "Index_init n t c u = \<lparr> ix_name = n, ix_table_name = t, ix_column_name = c, ix_unique = u \<rparr>"

definition Index_to_sql :: "db_index \<Rightarrow> string" where
  "Index_to_sql ix =
     (let sql = ''CREATE'';
          sql = (if ix_unique ix then sql @ '' UNIQUE'' else sql);
          sql = sql @ '' INDEX '' @ ix_name ix @ '' ON '' @ ix_table_name ix @ '' ('' @ ix_column_name ix @ '')''
      in sql @ '';'')"

text \<open>
  A model class after the metaclass has run on it: \<open>m_table_name\<close> and \<open>m_fields\<close> are
  the class attributes \<^verbatim>\<open>table_name\<close> and \<^verbatim>\<open>fields\<close>; \<open>pk_name\<close> is \<open>None\<close> when the class
  attribute was never assigned (no field is flagged primary key).
\<close>

record model_class =
  m_table_name :: string
  m_fields :: "field list"
  pk_name :: "string option"

text \<open>Assignment \<^verbatim>\<open>d[k] = v\<close> on an ordered dictionary: a new key goes last, an old key
  keeps its place.\<close>

fun odict_set :: "'k \<Rightarrow> 'v \<Rightarrow> ('k \<times> 'v) list \<Rightarrow> ('k \<times> 'v) list" where
  "odict_set k v [] = [(k, v)]"
| "odict_set k v ((k', v') # kvs) =
     (if k' = k then (k, v) # kvs else (k', v') # odict_set k v kvs)"

text \<open>The class attributes \<^verbatim>\<open>MetaData.tables\<close> and \<^verbatim>\<open>MetaData.indexes\<close>, as explicit state.\<close>

record metadata =
  tables :: "(string \<times> model_class) list"
  indexes :: "db_index list"

definition MetaData_empty :: metadata where
  "MetaData_empty = \<lparr> tables = [], indexes = [] \<rparr>"

definition index_sqls :: "metadata \<Rightarrow> string" where
  "index_sqls md = join ('';'' @ nl) (map Index_to_sql (indexes md))"


section \<open>Model declaration\<close>

text \<open>
  The class body handed to the metaclass: an ordered dictionary from attribute names to
  values. A value is a \<^verbatim>\<open>Field\<close>, a string (such as \<^verbatim>\<open>__tablename__\<close>), or something else
  (a method, say). Each attribute holds a \<^verbatim>\<open>Field\<close> object of its own. The functions that
  mutate the fields in place return the updated dictionary. Leading underscores of the
  source's names are dropped.
\<close>

datatype attr = AField field | AStr string | AOther

type_synonym attr_dict = "(string \<times> attr) list"

definition get_table_name :: "attr_dict \<Rightarrow> attr option" where
  "get_table_name attr_dict = map_of attr_dict ''__tablename__''"

fun auto_column_name :: "attr_dict \<Rightarrow> attr_dict" where
  "auto_column_name [] = []"
| "auto_column_name ((a, AField f) # rest) =
     (a, AField (f\<lparr> attr_name := Some a,
                    name := (case name f of None \<Rightarrow> Some a | Some n \<Rightarrow> Some n) \<rparr>))
       # auto_column_name rest"
| "auto_column_name ((a, AStr s) # rest) = (a, AStr s) # auto_column_name rest"
| "auto_column_name ((a, AOther) # rest) = (a, AOther) # auto_column_name rest"

text \<open>
  What \<^verbatim>\<open>_collect_fields\<close> assigns on each field (the back reference \<^verbatim>\<open>field.model\<close> is
  left out: nothing reads it).
\<close>

definition attach :: "string \<Rightarrow> field \<Rightarrow> field" where
  "attach t f = f\<lparr> table_name := Some t, sql_column := Some (t @ ''.'' @ str_opt (name f)) \<rparr>"

fun collect_fields :: "attr_dict \<Rightarrow> string \<Rightarrow> field list \<times> attr_dict" where
  "collect_fields [] t = ([], [])"
| "collect_fields ((a, AField f) # rest) t =
     (case collect_fields rest t of (fs, d) \<Rightarrow> (attach t f # fs, (a, AField (attach t f)) # d))"
| "collect_fields ((a, AStr s) # rest) t =
     (case collect_fields rest t of (fs, d) \<Rightarrow> (fs, (a, AStr s) # d))"
| "collect_fields ((a, AOther) # rest) t =
     (case collect_fields rest t of (fs, d) \<Rightarrow> (fs, (a, AOther) # d))"

text \<open>\<^verbatim>\<open>any([unique, primary_key, foreign_key])\<close>: a \<^verbatim>\<open>ForeignKey\<close> object is true, \<^verbatim>\<open>None\<close> is not.\<close>

definition any_key :: "field \<Rightarrow> bool" where
  "any_key f = (unique f \<or> primary_key f \<or> foreign_key f \<noteq> None)"

fun indexed_fields :: "attr_dict \<Rightarrow> field list" where
  "indexed_fields [] = []"
| "indexed_fields ((a, AField f) # rest) =
     (if \<not> any_key f \<and> index f then f # indexed_fields rest else indexed_fields rest)"
| "indexed_fields ((a, AStr s) # rest) = indexed_fields rest"
| "indexed_fields ((a, AOther) # rest) = indexed_fields rest"

fun append_indexes :: "string \<Rightarrow> field list \<Rightarrow> metadata \<Rightarrow> metadata" where
  "append_indexes t [] md = md"
| "append_indexes t (f # fs) md =
     (let column_name = str_opt (name f);
          nm = ''index_'' @ t @ ''_'' @ column_name;
          ix = Index_init nm t column_name (unique f)
      in append_indexes t fs (md\<lparr> indexes := indexes md @ [ix] \<rparr>))"

definition collect_indexes :: "string \<Rightarrow> attr_dict \<Rightarrow> metadata \<Rightarrow> metadata" where
  "collect_indexes t attr_dict md = append_indexes t (indexed_fields attr_dict) md"

text \<open>\<^verbatim>\<open>for field in cls.fields: if field.primary_key: ...; break\<close>, by position.\<close>

fun first_index :: "('a \<Rightarrow> bool) \<Rightarrow> 'a list \<Rightarrow> nat option" where
  "first_index P [] = None"
| "first_index P (x # xs) =
     (if P x then Some 0 else (case first_index P xs of None \<Rightarrow> None | Some i \<Rightarrow> Some (Suc i)))"

text \<open>
  \<^verbatim>\<open>ModelMetaClass.__init__\<close>: the registry is threaded through, and the class is returned
  when it is registered (\<open>None\<close> for a class without a table name, which gets neither
  \<^verbatim>\<open>table_name\<close> nor \<^verbatim>\<open>fields\<close>). Table names are strings.
\<close>

definition ModelMetaClass_init :: "metadata \<Rightarrow> attr_dict \<Rightarrow> metadata \<times> model_class option" where
  "ModelMetaClass_init md attr_dict =
     (case get_table_name attr_dict of
        Some (AStr t) \<Rightarrow>
          if t \<noteq> [] then
            (let d1 = auto_column_name attr_dict;
                 (fs, d2) = collect_fields d1 t;
                 m = \<lparr> m_table_name = t, m_fields = fs,
                       pk_name = (case first_index primary_key fs of
                                    None \<Rightarrow> None | Some i \<Rightarrow> Some (str_opt (name (fs ! i)))) \<rparr>;
                 md1 = md\<lparr> tables := odict_set t m (tables md) \<rparr>
             in (collect_indexes t d2 md1, Some m))
          else (md, None)
      | _ \<Rightarrow> (md, None))"

text \<open>Declaring a sequence of classes, starting from the empty registry.\<close>

definition declare_all :: "attr_dict list \<Rightarrow> metadata" where
  "declare_all ds = foldl (\<lambda>md d. fst (ModelMetaClass_init md d)) MetaData_empty ds"

section \<open>The database driver and Session\<close>

text \<open>
  An attribute of a model instance holds a plain value or, for \<^verbatim>\<open>pk_field\<close>, a reference to
  one of the \<^verbatim>\<open>Field\<close> objects of its class. Object identity of fields (\<^verbatim>\<open>field is
  self.pk_field\<close>) is identity of positions in \<^verbatim>\<open>fields\<close>.
\<close>

datatype slot = Val pyval | FieldRef nat

text \<open>
  The driver is an external collaborator. What it has been asked to do is recorded as a
  history of events; its answer to a statement (an error, or the rows of the result) is a
  parameter of the model and may depend on that history.
\<close>

datatype event = Execute string "slot list" | Commit | Rollback | CloseCursor | CloseConnection

type_synonym driver = "event list \<Rightarrow> string \<Rightarrow> slot list \<Rightarrow> error + pyval list list"

text \<open>A connected session: its connection and cursor.\<close>

record session =
  history :: "event list"
  result :: "pyval list list"

definition connect :: session where
  "connect = \<lparr> history = [], result = [] \<rparr>"

definition Session_execute :: "driver \<Rightarrow> session \<Rightarrow> string \<Rightarrow> slot list \<Rightarrow> error + session" where
  "Session_execute drv s sql args =
     (case drv (history s) sql args of
        Inl e \<Rightarrow> Inl e
      | Inr rows \<Rightarrow> Inr (s\<lparr> history := history s @ [Execute sql args], result := rows \<rparr>))"

definition Session_fetchone :: "session \<Rightarrow> pyval list option \<times> session" where
  "Session_fetchone s =
     (case result s of [] \<Rightarrow> (None, s) | row # rows \<Rightarrow> (Some row, s\<lparr> result := rows \<rparr>))"

definition Session_fetchall :: "session \<Rightarrow> pyval list list \<times> session" where
  "Session_fetchall s = (result s, s\<lparr> result := [] \<rparr>)"


definition Session_rollback :: "session \<Rightarrow> session" where
  "Session_rollback s = s\<lparr> history := history s @ [Rollback] \<rparr>"


section \<open>MetaData.create\_all\<close>



section \<open>Model instances\<close>

record model_instance =
  model_of :: model_class
  inst_dict :: "string \<rightharpoonup> slot"

text \<open>The \<^verbatim>\<open>Field\<close> found under an attribute name on the class.\<close>

definition class_field :: "model_class \<Rightarrow> string \<Rightarrow> field option" where
  "class_field m a = find (\<lambda>f. attr_name f = Some a) (m_fields m)"

text \<open>\<^verbatim>\<open>Field.__get__\<close> and \<^verbatim>\<open>Field.__set__\<close> on an instance.\<close>

definition Field_get :: "field \<Rightarrow> model_instance \<Rightarrow> error + slot" where
  "Field_get f inst =
     (case attr_name f of
        None \<Rightarrow> Inl (AttributeError ''_name'')
      | Some n \<Rightarrow> (case inst_dict inst n of None \<Rightarrow> Inr (Val (default_value f)) | Some v \<Rightarrow> Inr v))"

definition Field_set :: "field \<Rightarrow> model_instance \<Rightarrow> slot \<Rightarrow> error + model_instance" where
  "Field_set f inst v =
     (case attr_name f of
        None \<Rightarrow> Inl (AttributeError ''_name'')
      | Some n \<Rightarrow> Inr (inst\<lparr> inst_dict := (inst_dict inst)(n \<mapsto> v) \<rparr>))"

text \<open>
  Attribute access on an instance: a field of the class intercepts it, otherwise the
  instance dictionary decides. Names of other class attributes (methods, \<^verbatim>\<open>fields\<close>,
  \<^verbatim>\<open>table_name\<close>) are not looked up through these two functions.
\<close>

definition getattr :: "model_instance \<Rightarrow> string \<Rightarrow> error + slot" where
  "getattr inst a =
     (case class_field (model_of inst) a of
        Some f \<Rightarrow> Field_get f inst
      | None \<Rightarrow> (case inst_dict inst a of None \<Rightarrow> Inl (AttributeError a) | Some v \<Rightarrow> Inr v))"

definition setattr :: "model_instance \<Rightarrow> string \<Rightarrow> slot \<Rightarrow> error + model_instance" where
  "setattr inst a v =
     (case class_field (model_of inst) a of
        Some f \<Rightarrow> Field_set f inst v
      | None \<Rightarrow> Inr (inst\<lparr> inst_dict := (inst_dict inst)(a \<mapsto> v) \<rparr>))"

fun default_dict_loop :: "field list \<Rightarrow> (string \<rightharpoonup> slot) \<Rightarrow> error + (string \<rightharpoonup> slot)" where
  "default_dict_loop [] d = Inr d"
| "default_dict_loop (f # fs) d =
     (case attr_name f of
        None \<Rightarrow> Inl (AttributeError ''_name'')
      | Some n \<Rightarrow> default_dict_loop fs (d(n \<mapsto> Val (default_value f))))"

definition default_dict :: "model_class \<Rightarrow> error + (string \<rightharpoonup> slot)" where
  "default_dict m = default_dict_loop (m_fields m) Map.empty"

fun setattr_kwargs :: "(string \<times> pyval) list \<Rightarrow> model_instance \<Rightarrow> error + model_instance" where
  "setattr_kwargs [] inst = Inr inst"
| "setattr_kwargs ((kwg, v) # rest) inst =
     (case setattr inst kwg (Val v) of Inl e \<Rightarrow> Inl e | Inr inst' \<Rightarrow> setattr_kwargs rest inst')"

text \<open>\<^verbatim>\<open>Model.__init__(**kwargs)\<close>; the keyword arguments carry plain values.\<close>

definition Model_init :: "model_class \<Rightarrow> (string \<times> pyval) list \<Rightarrow> error + model_instance" where
  "Model_init m kwargs =
     (case default_dict m of
        Inl e \<Rightarrow> Inl e
      | Inr d \<Rightarrow>
          (case setattr_kwargs kwargs \<lparr> model_of = m, inst_dict = d \<rparr> of
             Inl e \<Rightarrow> Inl e
           | Inr inst \<Rightarrow>
               (case first_index primary_key (m_fields m) of
                  None \<Rightarrow> Inr inst
                | Some i \<Rightarrow> setattr inst ''pk_field'' (FieldRef i))))"

text \<open>
  \<^verbatim>\<open>instance.pk_field\<close> followed by an attribute of the field (\<^verbatim>\<open>.name\<close>, \<^verbatim>\<open>._name\<close>): a
  plain value has neither attribute.
\<close>

definition pk_field :: "model_instance \<Rightarrow> string \<Rightarrow> error + field" where
  "pk_field inst a =
     (case getattr inst ''pk_field'' of
        Inl e \<Rightarrow> Inl e
      | Inr (Val v) \<Rightarrow> Inl (AttributeError a)
      | Inr (FieldRef i) \<Rightarrow>
          (if i < length (m_fields (model_of inst)) then Inr (m_fields (model_of inst) ! i)
           else Inl (AttributeError a)))"

text \<open>\<^verbatim>\<open>getattr(self, field._name, field.default_value())\<close>.\<close>

definition getattr_default :: "model_instance \<Rightarrow> string \<Rightarrow> slot \<Rightarrow> error + slot" where
  "getattr_default inst a d =
     (case getattr inst a of
        Inl (AttributeError x) \<Rightarrow> Inr d
      | Inl e \<Rightarrow> Inl e
      | Inr v \<Rightarrow> Inr v)"

fun sql_values_loop ::
  "model_instance \<Rightarrow> (nat \<times> field) list \<Rightarrow> (string \<times> slot) list \<Rightarrow> error + (string \<times> slot) list" where
  "sql_values_loop inst [] values_dict = Inr values_dict"
| "sql_values_loop inst ((i, f) # rest) values_dict =
     (case getattr inst ''pk_field'' of
        Inl e \<Rightarrow> Inl e
      | Inr pk \<Rightarrow>
          if pk = FieldRef i then sql_values_loop inst rest values_dict
          else
            (case attr_name f of
               None \<Rightarrow> Inl (AttributeError ''_name'')
             | Some n \<Rightarrow>
                 (case getattr_default inst n (Val (default_value f)) of
                    Inl e \<Rightarrow> Inl e
                  | Inr v \<Rightarrow>
                      if v \<noteq> Val PNone
                      then sql_values_loop inst rest (odict_set (str_opt (name f)) v values_dict)
                      else sql_values_loop inst rest values_dict)))"

definition sql_values :: "model_instance \<Rightarrow> error + (string \<times> slot) list" where
  "sql_values inst = sql_values_loop inst (enumerate 0 (m_fields (model_of inst))) []"

section \<open>Session: insert, update, delete\<close>

definition Session_insert :: "driver \<Rightarrow> session \<Rightarrow> model_instance \<Rightarrow> error + (session \<times> model_instance)" where
  "Session_insert drv s inst =
     (case pk_field inst ''name'' of
        Inl e \<Rightarrow> Inl e
      | Inr pkf \<Rightarrow>
          (let pk_nm = str_opt (name pkf) in
           case sql_values inst of
             Inl e \<Rightarrow> Inl e
           | Inr sv \<Rightarrow>
               (let columns = join '', '' (map fst sv);
                    vals = join '', '' (map (\<lambda>k. ''%s'') sv);
                    sql = ''INSERT INTO '' @ m_table_name (model_of inst) @ '' ('' @ columns
                            @ '') VALUES ('' @ vals @ '') RETURNING '' @ pk_nm @ '';'';
                    args = map snd sv
                in case Session_execute drv s sql args of
                     Inl e \<Rightarrow> Inl e
                   | Inr s1 \<Rightarrow>
                       (case Session_fetchone s1 of
                          (None, s2) \<Rightarrow> Inl (TypeError ''NoneType object is not subscriptable'')
                        | (Some [], s2) \<Rightarrow> Inl (IndexError ''tuple index out of range'')
                        | (Some (pk_value # others), s2) \<Rightarrow>
                            (case attr_name pkf of
                               None \<Rightarrow> Inl (AttributeError ''_name'')
                             | Some n \<Rightarrow>
                                 (case setattr inst n (Val pk_value) of
                                    Inl e \<Rightarrow> Inl e
                                  | Inr inst' \<Rightarrow> Inr (s2, inst')))))))"

definition Session_update :: "driver \<Rightarrow> session \<Rightarrow> model_instance \<Rightarrow> error + session" where
  "Session_update drv s inst =
     (case pk_field inst ''name'' of
        Inl e \<Rightarrow> Inl e
      | Inr pkf \<Rightarrow>
          (let pk_nm = str_opt (name pkf) in
           case getattr inst pk_nm of
             Inl e \<Rightarrow> Inl e
           | Inr pk_value \<Rightarrow>
               (case sql_values inst of
                  Inl e \<Rightarrow> Inl e
                | Inr sv \<Rightarrow>
                    (let columns = join '', '' (map (\<lambda>(k, v). k @ '' = %s'') sv);
                         sql = ''UPDATE '' @ m_table_name (model_of inst) @ '' SET '' @ columns
                                 @ '' WHERE '' @ pk_nm @ '' = %s;'';
                         args = map snd sv @ [pk_value]
                     in Session_execute drv s sql args))))"

definition Session_delete :: "driver \<Rightarrow> session \<Rightarrow> model_instance \<Rightarrow> error + (session \<times> model_instance)" where
  "Session_delete drv s inst =
     (case pk_field inst ''name'' of
        Inl e \<Rightarrow> Inl e
      | Inr pkf \<Rightarrow>
          (let pk_nm = str_opt (name pkf) in
           case getattr inst pk_nm of
             Inl e \<Rightarrow> Inl e
           | Inr pk_value \<Rightarrow>
               (let sql = ''DELETE FROM '' @ m_table_name (model_of inst) @ '' WHERE '' @ pk_nm @ '' = %s'';
                    args = [pk_value]
                in case Session_execute drv s sql args of
                     Inl e \<Rightarrow> Inl e
                   | Inr s1 \<Rightarrow>
                       (case setattr inst pk_nm (Val PNone) of
                          Inl e \<Rightarrow> Inl e
                        | Inr inst' \<Rightarrow> Inr (s1, inst')))))"

section \<open>QuerySet\<close>

record queryset =
  qs_session :: session
  qs_model :: model_class
  exps :: "(string \<times> slot) list"

definition QuerySet_init :: "session \<Rightarrow> model_class \<Rightarrow> (string \<times> slot) list option \<Rightarrow> queryset" where
  "QuerySet_init s m es =
     \<lparr> qs_session = s, qs_model = m, exps = (case es of None \<Rightarrow> [] | Some [] \<Rightarrow> [] | Some xs \<Rightarrow> xs) \<rparr>"

text \<open>
  Reading an attribute of a \<^verbatim>\<open>QuerySet\<close> where the code goes on to use it as the model
  class. \<^verbatim>\<open>__init__\<close> assigns \<^verbatim>\<open>session\<close>, \<^verbatim>\<open>model\<close> and \<^verbatim>\<open>exps\<close>, and the class defines
  \<^verbatim>\<open>filter\<close>, \<^verbatim>\<open>_build_sql\<close> and \<^verbatim>\<open>__iter__\<close>: \<^verbatim>\<open>model\<close> holds the model class, and a name
  that is none of these raises \<open>AttributeError\<close>. The function is applied to the two names
  that \<^verbatim>\<open>_build_sql\<close> reads, \<^verbatim>\<open>model\<close> and \<^verbatim>\<open>models\<close>.
\<close>

definition QuerySet_model_attr :: "queryset \<Rightarrow> string \<Rightarrow> error + model_class" where
  "QuerySet_model_attr qs a =
     (if a = ''model'' then Inr (qs_model qs) else Inl (AttributeError a))"

definition build_sql :: "queryset \<Rightarrow> error + (string \<times> slot list)" where
  "build_sql qs =
     (case QuerySet_model_attr qs ''model'' of
        Inl e \<Rightarrow> Inl e
      | Inr m \<Rightarrow>
          (let tn = m_table_name m;
               wh = join ''AND '' (map fst (exps qs));
               args = map snd (exps qs);
               wh = (if wh \<noteq> [] then ''WHERE '' @ wh else wh)
           in case QuerySet_model_attr qs ''models'' of
                Inl e \<Rightarrow> Inl e
              | Inr ms \<Rightarrow>
                  (let column_names =
                         join '', '' (map (\<lambda>f. str_opt (name f) @ '' AS '' @ tn @ ''_'' @ str_opt (name f))
                                          (m_fields ms))
                   in Inr (''SELECT '' @ column_names @ '' FROM '' @ tn @ '' '' @ wh @ '';'', args))))"

fun assign_row :: "model_class \<Rightarrow> model_instance \<Rightarrow> nat \<Rightarrow> pyval list \<Rightarrow> error + model_instance" where
  "assign_row m inst nu [] = Inr inst"
| "assign_row m inst nu (v # vs) =
     (if nu < length (m_fields m) then
        (case setattr inst (str_opt (name (m_fields m ! nu))) (Val v) of
           Inl e \<Rightarrow> Inl e
         | Inr inst' \<Rightarrow> assign_row m inst' (Suc nu) vs)
      else Inl (IndexError ''list index out of range''))"

fun hydrate :: "model_class \<Rightarrow> pyval list list \<Rightarrow> error + model_instance list" where
  "hydrate m [] = Inr []"
| "hydrate m (row # rows) =
     (case Model_init m [] of
        Inl e \<Rightarrow> Inl e
      | Inr inst0 \<Rightarrow>
          (case assign_row m inst0 0 row of
             Inl e \<Rightarrow> Inl e
           | Inr inst \<Rightarrow>
               (case hydrate m rows of Inl e \<Rightarrow> Inl e | Inr insts \<Rightarrow> Inr (inst # insts))))"

text \<open>\<^verbatim>\<open>QuerySet.__iter__\<close>, run to the end of the result set.\<close>

definition QuerySet_iter :: "driver \<Rightarrow> queryset \<Rightarrow> error + (session \<times> model_instance list)" where
  "QuerySet_iter drv qs =
     (case build_sql qs of
        Inl e \<Rightarrow> Inl e
      | Inr (sql, args) \<Rightarrow>
          (case Session_execute drv (qs_session qs) sql args of
             Inl e \<Rightarrow> Inl e
           | Inr s1 \<Rightarrow>
               (case Session_fetchall s1 of
                  (rows, s2) \<Rightarrow>
                    (case hydrate (qs_model qs) rows of
                       Inl e \<Rightarrow> Inl e
                     | Inr insts \<Rightarrow> Inr (s2, insts)))))"

section \<open>The clauses of a column definition, as specified\<close>







section \<open>Index synthesis, as specified\<close>

text \<open>
  The column name of a field declared under attribute \<open>a\<close>: the explicit name, or the
  attribute name when none was given. A field marked \<^verbatim>\<open>index=True\<close> that is not unique, not
  primary key and not foreign-keyed contributes one non-unique index \<^verbatim>\<open>index_<t>_<c>\<close> over
  its table and column; every other attribute contributes none.
\<close>

definition spec_column :: "string \<Rightarrow> field \<Rightarrow> string" where
  "spec_column a f = (case name f of None \<Rightarrow> a | Some n \<Rightarrow> n)"

definition spec_index :: "string \<Rightarrow> string \<times> attr \<Rightarrow> db_index list" where
  "spec_index t p =
     (case snd p of
        AField f \<Rightarrow>
          if index f \<and> \<not> unique f \<and> \<not> primary_key f \<and> foreign_key f = None
          then [\<lparr> ix_name = ''index_'' @ t @ ''_'' @ spec_column (fst p) f, ix_table_name = t,
                  ix_column_name = spec_column (fst p) f, ix_unique = False \<rparr>]
          else []
      | _ \<Rightarrow> [])"

definition spec_index_sql :: "db_index \<Rightarrow> string" where
  "spec_index_sql ix =
     ''CREATE INDEX '' @ ix_name ix @ '' ON '' @ ix_table_name ix @ '' ('' @ ix_column_name ix @ '');''"

section \<open>The INSERT statement, as specified\<close>





section \<open>Example models\<close>

text \<open>
  \<^verbatim>\<open>class User(Model): __tablename__ = 'users'; id = AutoField(primary_key=True);
  name = TextField(default='x', index=True); age = IntegerField()\<close>
\<close>

definition User_attrs :: attr_dict where
  "User_attrs =
     [(''__tablename__'', AStr ''users''),
      (''id'', AField (Field_init AutoField None None (Literal PNone) PNone False True False True None)),
      (''name'', AField (Field_init TextField None None (Literal (PStr ''x'')) PNone False True True False None)),
      (''age'', AField (Field_init IntegerField None None (Literal PNone) PNone False True False False None))]"



text \<open>A driver that accepts every statement and answers with one row holding the number 1.\<close>

definition ok_driver :: driver where
  "ok_driver h q a = Inr [[PInt 1]]"

text \<open>
  \<^verbatim>\<open>class Note(Model): __tablename__ = 'notes'; body = TextField()\<close>, a model without a
  primary key, and the instance \<^verbatim>\<open>Note(body='hello')\<close>.
\<close>

definition Note_attrs :: attr_dict where
  "Note_attrs =
     [(''__tablename__'', AStr ''notes''),
      (''body'', AField (Field_init TextField None None (Literal PNone) PNone False True False False None))]"

definition Note :: model_class where
  "Note = the (snd (ModelMetaClass_init MetaData_empty Note_attrs))"

definition a_note :: model_instance where
  "a_note = projr (Model_init Note [(''body'', PStr ''hello'')])"

text \<open>
  \<^verbatim>\<open>class Account(Model): __tablename__ = 'accounts'; uid = AutoField(name='id',
  primary_key=True)\<close>, whose primary key has an explicit column name, and the instance
  \<^verbatim>\<open>Account(uid=5)\<close>.
\<close>

definition Account_attrs :: attr_dict where
  "Account_attrs =
     [(''__tablename__'', AStr ''accounts''),
      (''uid'', AField (Field_init AutoField (Some ''id'') None (Literal PNone) PNone False True False True None))]"

definition Account :: model_class where
  "Account = the (snd (ModelMetaClass_init MetaData_empty Account_attrs))"

definition an_account :: model_instance where
  "an_account = projr (Model_init Account [(''uid'', PInt 5)])"

section \<open>Field: rendering, defaults and builders\<close>



text \<open>
  C5. \<^verbatim>\<open>default_value\<close> calls the default when it is a zero-argument producer, returns it as
  it is when it is a literal (other than the missing default of a text-typed field), and
  returns the string \<^verbatim>\<open>None\<close> for a text-typed field without a default.
\<close>

theorem default_value_resolves:
  "(default_arg f = Producer g \<longrightarrow> default_value f = g ()) \<and>
   (default_arg f = Literal v \<and> \<not> (v = PNone \<and> isinstance_TextField (cls f))
      \<longrightarrow> default_value f = v) \<and>
   (default_arg f = Literal PNone \<and> isinstance_TextField (cls f)
      \<longrightarrow> default_value f = PStr ''None'')"
  by (auto simp: default_value_def split: pyval.splits)

theorem default_value_resolves_witness:
  "default_value (Field_init IntegerField None None (Producer (\<lambda>u. PInt 7)) PNone False True False False None)
     = PInt 7 \<and>
   default_value (Field_init IntegerField None None (Literal PNone) PNone False True False False None)
     = PNone \<and>
   default_value (Field_init CharField None (Some 20) (Literal PNone) PNone False True False False None)
     = PStr ''None''"
proof -
  let ?p = "Field_init IntegerField None None (Producer (\<lambda>u. PInt 7)) PNone False True False False None"
  let ?l = "Field_init IntegerField None None (Literal PNone) PNone False True False False None"
  let ?t = "Field_init CharField None (Some 20) (Literal PNone) PNone False True False False None"
  have p: "default_arg ?p = Producer (\<lambda>u. PInt 7)"
    by (simp add: Field_init_def)
  have l: "default_arg ?l = Literal PNone \<and> \<not> (PNone = PNone \<and> isinstance_TextField (cls ?l))"
    by (simp add: Field_init_def)
  have t: "default_arg ?t = Literal PNone \<and> isinstance_TextField (cls ?t)"
    by (simp add: Field_init_def)
  from default_value_resolves [of ?p "\<lambda>u. PInt 7" PNone] p
  have 1: "default_value ?p = PInt 7" by simp
  from default_value_resolves [of ?l "\<lambda>u. PNone" PNone] l
  have 2: "default_value ?l = PNone" by blast
  from default_value_resolves [of ?t "\<lambda>u. PNone" PNone] t
  have 3: "default_value ?t = PStr ''None''" by blast
  from 1 2 3 show ?thesis by blast
qed

text \<open>
  On an attached field the builders for \<^verbatim>\<open><\<close>, \<^verbatim>\<open>!=\<close>, \<^verbatim>\<open>>\<close> and \<^verbatim>\<open>LIKE\<close> return the
  fragment built on the qualified column together with the bound value, and \<^verbatim>\<open>desc\<close>
  returns a single string.
\<close>

lemma builders_attached:
  assumes "sql_column f = Some c"
  shows "Field_lt f v = Inr (c @ '' < %s'', v)"
    and "Field_ne f v = Inr (c @ '' != %s'', v)"
    and "Field_gt f v = Inr (c @ '' > %s'', v)"
    and "Field_like f v = Inr (c @ '' LIKE %s'', v)"
    and "Field_desc f = Inr (c @ '' DESC'')"
  using assms
  by (simp_all add: Field_lt_def Field_ne_def Field_gt_def Field_like_def Field_desc_def
      with_value_def Field_attr_def)

text \<open>
  C1. The builder for \<^verbatim>\<open>=\<close> does not return a fragment and a value: its template names the
  replacement field \<^verbatim>\<open>{sql_column}\<close> without the leading dot of its siblings, so
  \<^verbatim>\<open>format\<close> looks for a keyword argument that the call does not pass and raises
  \<open>KeyError\<close>, on every field and for every value.
\<close>

theorem Field_eq_raises: "Field_eq f v = Inl (KeyError ''sql_column'')"
  by (simp add: Field_eq_def with_value_def)

section \<open>QuerySet: building the statement\<close>

text \<open>
  C2. \<^verbatim>\<open>_build_sql\<close> reads \<^verbatim>\<open>self.models\<close>, an attribute that a \<^verbatim>\<open>QuerySet\<close> does not have,
  so building the statement raises \<open>AttributeError\<close>; iterating the query set therefore raises
  it as well, before anything is executed and without yielding an instance.
\<close>

theorem build_sql_raises:
  "build_sql qs = Inl (AttributeError ''models'')
   \<and> QuerySet_iter drv qs = Inl (AttributeError ''models'')"
  by (simp add: build_sql_def QuerySet_iter_def QuerySet_model_attr_def Let_def)

section \<open>Model declaration and the index registry\<close>

lemma indexes_append_indexes:
  "indexes (append_indexes t fs md) =
     indexes md @ map (\<lambda>f. Index_init (''index_'' @ t @ ''_'' @ str_opt (name f)) t (str_opt (name f)) (unique f)) fs"
  by (induction fs arbitrary: md) (simp_all add: Let_def)


lemma collect_fields_fst [simp]:
  "fst (collect_fields [] t) = []"
  "fst (collect_fields ((a, AField f) # rest) t) = attach t f # fst (collect_fields rest t)"
  "fst (collect_fields ((a, AStr x) # rest) t) = fst (collect_fields rest t)"
  "fst (collect_fields ((a, AOther) # rest) t) = fst (collect_fields rest t)"
  by (simp_all split: prod.splits)

lemma collect_fields_snd [simp]:
  "snd (collect_fields [] t) = []"
  "snd (collect_fields ((a, AField f) # rest) t) = (a, AField (attach t f)) # snd (collect_fields rest t)"
  "snd (collect_fields ((a, AStr x) # rest) t) = (a, AStr x) # snd (collect_fields rest t)"
  "snd (collect_fields ((a, AOther) # rest) t) = (a, AOther) # snd (collect_fields rest t)"
  by (simp_all split: prod.splits)

declare collect_fields.simps [simp del]

lemma spec_index_simps:
  "spec_index t (a, AField f) =
     (if \<not> any_key f \<and> index f
      then [Index_init (''index_'' @ t @ ''_'' @ spec_column a f) t (spec_column a f) (unique f)]
      else [])"
  "spec_index t (a, AStr x) = []"
  "spec_index t (a, AOther) = []"
  by (auto simp: spec_index_def any_key_def Index_init_def)

lemma indexed_fields_declared:
  "map (\<lambda>f. Index_init (''index_'' @ t @ ''_'' @ str_opt (name f)) t (str_opt (name f)) (unique f))
       (indexed_fields (snd (collect_fields (auto_column_name d) t)))
   = concat (map (spec_index t) d)"
proof (induction d rule: auto_column_name.induct)
  case (2 a f rest)
  have "str_opt (case name f of None \<Rightarrow> Some a | Some n \<Rightarrow> Some n) = spec_column a f"
    by (simp add: spec_column_def split: option.splits)
  with 2 show ?case
    by (simp add: spec_index_simps attach_def any_key_def)
qed (simp_all add: spec_index_simps)

lemma indexes_declared:
  assumes "get_table_name attr_dict = Some (AStr t)" and "t \<noteq> []"
  shows "indexes (fst (ModelMetaClass_init md attr_dict))
           = indexes md @ concat (map (spec_index t) attr_dict)"
  using assms indexed_fields_declared [of t attr_dict]
  by (simp add: ModelMetaClass_init_def collect_indexes_def indexes_append_indexes Let_def
       split_beta)

lemma undeclared:
  assumes "\<not> (\<exists>t. get_table_name attr_dict = Some (AStr t) \<and> t \<noteq> [])"
  shows "ModelMetaClass_init md attr_dict = (md, None)"
  using assms
  by (auto simp: ModelMetaClass_init_def split: option.splits attr.splits)

text \<open>
  C9. Declaring a model on table \<open>t\<close> appends to the registry's index list, in declaration
  order, exactly one index for each field marked \<^verbatim>\<open>index=True\<close> that is not unique, not
  primary key and not foreign-keyed: named \<^verbatim>\<open>index_<t>_<c>\<close>, over table \<open>t\<close> and the field's
  column \<open>c\<close>; nothing else is appended.
\<close>

theorem index_synthesis:
  assumes "get_table_name attr_dict = Some (AStr t)" and "t \<noteq> []"
  shows "indexes (fst (ModelMetaClass_init md attr_dict))
           = indexes md @ concat (map (spec_index t) attr_dict)"
  using assms by (rule indexes_declared)

lemma spec_index_not_unique: "ix \<in> set (concat (map (spec_index t) d)) \<Longrightarrow> \<not> ix_unique ix"
  by (auto simp: spec_index_def split: attr.splits if_splits)

lemma declaration_keeps_plain:
  assumes "\<forall>ix \<in> set (indexes md). \<not> ix_unique ix"
  shows "\<forall>ix \<in> set (indexes (fst (ModelMetaClass_init md d))). \<not> ix_unique ix"
proof (cases "\<exists>t. get_table_name d = Some (AStr t) \<and> t \<noteq> []")
  case True
  then obtain t where "get_table_name d = Some (AStr t)" "t \<noteq> []" by blast
  then have "indexes (fst (ModelMetaClass_init md d)) = indexes md @ concat (map (spec_index t) d)"
    by (rule indexes_declared)
  with assms spec_index_not_unique [of _ t d] show ?thesis by auto
next
  case False
  then have "ModelMetaClass_init md d = (md, None)" by (rule undeclared)
  with assms show ?thesis by simp
qed

lemma foldl_keeps_plain:
  assumes "\<forall>ix \<in> set (indexes md). \<not> ix_unique ix"
  shows "\<forall>ix \<in> set (indexes (foldl (\<lambda>md d. fst (ModelMetaClass_init md d)) md ds)). \<not> ix_unique ix"
  using assms
proof (induction ds arbitrary: md)
  case Nil then show ?case by simp
next
  case (Cons d ds)
  from Cons.prems have "\<forall>ix \<in> set (indexes (fst (ModelMetaClass_init md d))). \<not> ix_unique ix"
    by (rule declaration_keeps_plain)
  then show ?case using Cons.IH by simp
qed

lemma plain_index_sql: "\<not> ix_unique ix \<Longrightarrow> Index_to_sql ix = spec_index_sql ix"
  by (simp add: Index_to_sql_def spec_index_sql_def)

text \<open>
  C10. In a registry filled by model declarations, no index is unique, and every statement of
  the batched index DDL is a plain \<^verbatim>\<open>CREATE INDEX <name> ON <table> (<column>);\<close>.
\<close>

theorem no_unique_index:
  "(\<forall>ix \<in> set (indexes (declare_all ds)). \<not> ix_unique ix)
   \<and> index_sqls (declare_all ds) = join ('';'' @ nl) (map spec_index_sql (indexes (declare_all ds)))"
proof -
  have p: "\<forall>ix \<in> set (indexes (declare_all ds)). \<not> ix_unique ix"
    unfolding declare_all_def by (rule foldl_keeps_plain) (simp add: MetaData_empty_def)
  then have "map Index_to_sql (indexes (declare_all ds)) = map spec_index_sql (indexes (declare_all ds))"
    by (intro list.map_cong0) (simp add: plain_index_sql)
  then have "index_sqls (declare_all ds) = join ('';'' @ nl) (map spec_index_sql (indexes (declare_all ds)))"
    unfolding index_sqls_def by (rule arg_cong)
  with p show ?thesis by blast
qed

lemma User_declared:
  "indexes (declare_all [User_attrs]) = [Index_init ''index_users_name'' ''users'' ''name'' False]"
  by (simp add: declare_all_def User_attrs_def ModelMetaClass_init_def get_table_name_def
      MetaData_empty_def Field_init_def collect_indexes_def any_key_def attach_def Index_init_def Let_def
      collect_fields.simps)


theorem index_synthesis_witness:
  "indexes (fst (ModelMetaClass_init MetaData_empty User_attrs))
     = [\<lparr> ix_name = ''index_users_name'', ix_table_name = ''users'', ix_column_name = ''name'',
          ix_unique = False \<rparr>]"
proof -
  have t: "get_table_name User_attrs = Some (AStr ''users'')"
    by (simp add: get_table_name_def User_attrs_def)
  have "indexes (fst (ModelMetaClass_init MetaData_empty User_attrs))
          = indexes MetaData_empty @ concat (map (spec_index ''users'') User_attrs)"
    using index_synthesis [OF t] by simp
  then show ?thesis
    by (simp add: MetaData_empty_def User_attrs_def spec_index_def spec_column_def Field_init_def)
qed

theorem no_unique_index_witness:
  "indexes (declare_all [User_attrs]) \<noteq> []
   \<and> \<not> ix_unique (hd (indexes (declare_all [User_attrs])))
   \<and> index_sqls (declare_all [User_attrs]) = ''CREATE INDEX index_users_name ON users (name);''"
  using no_unique_index [of "[User_attrs]"]
  by (simp add: User_declared spec_index_sql_def Index_init_def)

section \<open>MetaData.create\_all: the statements sent\<close>







section \<open>Session writes and the primary key\<close>

lemmas declare_simps =
  ModelMetaClass_init_def get_table_name_def MetaData_empty_def Field_init_def collect_indexes_def
  any_key_def attach_def Index_init_def Let_def collect_fields.simps

lemma Note_model:
  "Note = \<lparr> m_table_name = ''notes'',
            m_fields = [\<lparr> cls = TextField, name = Some ''body'', max_length = None,
                          default_arg = Literal PNone, server_default = PNone, unique = False,
                          nullable = True, index = False, primary_key = False, foreign_key = None,
                          attr_name = Some ''body'', table_name = Some ''notes'',
                          sql_column = Some ''notes.body'' \<rparr>],
            pk_name = None \<rparr>"
  by (simp add: Note_def Note_attrs_def declare_simps)

lemmas instance_simps =
  Model_init_def default_dict_def setattr_def getattr_def class_field_def Field_get_def Field_set_def
  default_value_def pk_field_def

lemma a_note_instance:
  "Model_init Note [(''body'', PStr ''hello'')]
     = Inr \<lparr> model_of = Note, inst_dict = [''body'' \<mapsto> Val (PStr ''hello'')] \<rparr>"
  by (simp add: Note_model instance_simps)

lemma a_note_value:
  "a_note = \<lparr> model_of = Note, inst_dict = [''body'' \<mapsto> Val (PStr ''hello'')] \<rparr>"
  unfolding a_note_def a_note_instance by simp

text \<open>
  C3, as stated, fails: on an instance of a model without a primary key \<^verbatim>\<open>insert\<close> raises
  \<open>AttributeError\<close> (the instance has no \<^verbatim>\<open>pk_field\<close>); the module defines no
  \<^verbatim>\<open>MissingPrimaryKeyError\<close>.
\<close>

theorem insert_without_pk_counterexample:
  "Session_insert ok_driver connect a_note = Inl (AttributeError ''pk_field'')"
  unfolding a_note_value
  by (simp add: Session_insert_def pk_field_def getattr_def class_field_def Note_model)

lemma Account_model:
  "Account = \<lparr> m_table_name = ''accounts'',
            m_fields = [\<lparr> cls = AutoField, name = Some ''id'', max_length = None,
                          default_arg = Literal PNone, server_default = PNone, unique = False,
                          nullable = True, index = False, primary_key = True, foreign_key = None,
                          attr_name = Some ''uid'', table_name = Some ''accounts'',
                          sql_column = Some ''accounts.id'' \<rparr>],
            pk_name = Some ''id'' \<rparr>"
  by (simp add: Account_def Account_attrs_def declare_simps)

lemma an_account_instance:
  "Model_init Account [(''uid'', PInt 5)]
     = Inr \<lparr> model_of = Account,
             inst_dict = [''uid'' \<mapsto> Val (PInt 5), ''pk_field'' \<mapsto> FieldRef 0] \<rparr>"
  by (simp add: Account_model instance_simps)

lemma an_account_value:
  "an_account = \<lparr> model_of = Account,
             inst_dict = [''uid'' \<mapsto> Val (PInt 5), ''pk_field'' \<mapsto> FieldRef 0] \<rparr>"
  unfolding an_account_def an_account_instance by simp

text \<open>
  C7. \<^verbatim>\<open>Session.delete\<close> reads and clears the primary key under the column name
  (\<^verbatim>\<open>pk_field.name\<close>) where \<^verbatim>\<open>insert\<close> uses the attribute name (\<^verbatim>\<open>pk_field._name\<close>). For
  \<^verbatim>\<open>Account(uid=5)\<close>, whose primary key \<^verbatim>\<open>uid\<close> is stored in column \<^verbatim>\<open>id\<close>, it raises
  \<open>AttributeError\<close> before it executes anything.
\<close>

theorem delete_explicit_name_raises:
  "Session_delete ok_driver connect an_account = Inl (AttributeError ''id'')"
  unfolding an_account_value
  by (simp add: Session_delete_def pk_field_def getattr_def class_field_def Account_model
      Field_get_def)

lemma class_field_attr_name: "class_field m a = Some f \<Longrightarrow> attr_name f = Some a"
  by (auto simp: class_field_def find_Some_iff)

lemma setattr_value:
  "setattr inst a v = Inr (inst\<lparr> inst_dict := (inst_dict inst)(a \<mapsto> v) \<rparr>)"
  by (auto simp: setattr_def Field_set_def dest: class_field_attr_name split: option.splits)

lemma getattr_value:
  "getattr inst a =
     (case inst_dict inst a of
        Some v \<Rightarrow> Inr v
      | None \<Rightarrow> (case class_field (model_of inst) a of
                    Some f \<Rightarrow> Inr (Val (default_value f))
                  | None \<Rightarrow> Inl (AttributeError a)))"
  by (auto simp: getattr_def Field_get_def dest: class_field_attr_name split: option.splits)

lemma first_index_None: "first_index P xs = None \<longleftrightarrow> (\<forall>x \<in> set xs. \<not> P x)"
  by (induction xs) (auto split: option.splits)

lemma first_index_Some: "first_index P xs = Some i \<Longrightarrow> i < length xs \<and> P (xs ! i)"
  by (induction xs arbitrary: i) (auto split: option.splits if_splits)

lemma default_dict_loop_plain:
  assumes "default_dict_loop fs d = Inr d'" and "\<forall>k i. d k \<noteq> Some (FieldRef i)"
  shows "\<forall>k i. d' k \<noteq> Some (FieldRef i)"
  using assms
  by (induction fs arbitrary: d) (auto split: option.splits)

lemma setattr_kwargs_plain:
  assumes "setattr_kwargs kwargs inst = Inr inst'" and "\<forall>k i. inst_dict inst k \<noteq> Some (FieldRef i)"
  shows "(\<forall>k i. inst_dict inst' k \<noteq> Some (FieldRef i)) \<and> model_of inst' = model_of inst"
  using assms
  by (induction kwargs arbitrary: inst) (auto simp: setattr_value)

lemma Model_init_plain:
  assumes "\<forall>f \<in> set (m_fields m). \<not> primary_key f" and "Model_init m kwargs = Inr inst"
  shows "\<forall>k i. inst_dict inst k \<noteq> Some (FieldRef i)"
proof -
  from assms(1) have n: "first_index primary_key (m_fields m) = None"
    by (simp add: first_index_None)
  from assms(2) obtain d where d: "default_dict m = Inr d"
    and k: "setattr_kwargs kwargs \<lparr> model_of = m, inst_dict = d \<rparr> = Inr inst"
    by (auto simp: Model_init_def n split: sum.splits)
  from d have "\<forall>k i. d k \<noteq> Some (FieldRef i)"
    unfolding default_dict_def by (rule default_dict_loop_plain) simp
  with k setattr_kwargs_plain [of kwargs "\<lparr> model_of = m, inst_dict = d \<rparr>" inst]
  show ?thesis by simp
qed

lemma pk_field_plain:
  assumes "\<forall>k i. inst_dict inst k \<noteq> Some (FieldRef i)"
  shows "pk_field inst a = Inl (AttributeError ''pk_field'') \<or> pk_field inst a = Inl (AttributeError a)"
proof (cases "getattr inst ''pk_field''")
  case (Inl e)
  then have "e = AttributeError ''pk_field''"
    by (auto simp: getattr_value split: option.splits)
  with Inl show ?thesis by (simp add: pk_field_def)
next
  case (Inr v)
  with assms have "\<exists>x. v = Val x"
    by (cases v) (auto simp: getattr_value split: option.splits)
  with Inr show ?thesis by (auto simp: pk_field_def)
qed

text \<open>
  C3, amended. On an instance constructed from a model none of whose fields is flagged
  primary key, \<^verbatim>\<open>insert\<close>, \<^verbatim>\<open>update\<close> and \<^verbatim>\<open>delete\<close> all fail with an \<open>AttributeError\<close>,
  raised by their first statement \<^verbatim>\<open>instance.pk_field.name\<close>; none of them succeeds.
\<close>

theorem write_without_primary_key:
  assumes "\<forall>f \<in> set (m_fields m). \<not> primary_key f" and "Model_init m kwargs = Inr inst"
  shows "\<exists>a. Session_insert drv s inst = Inl (AttributeError a)
           \<and> Session_update drv s inst = Inl (AttributeError a)
           \<and> Session_delete drv s inst = Inl (AttributeError a)"
proof -
  from assms have "\<forall>k i. inst_dict inst k \<noteq> Some (FieldRef i)" by (rule Model_init_plain)
  then have "pk_field inst ''name'' = Inl (AttributeError ''pk_field'')
               \<or> pk_field inst ''name'' = Inl (AttributeError ''name'')"
    by (rule pk_field_plain)
  then show ?thesis
    by (auto simp: Session_insert_def Session_update_def Session_delete_def)
qed

theorem write_without_primary_key_witness:
  "Session_insert ok_driver connect a_note = Inl (AttributeError ''pk_field'')
   \<and> Session_update ok_driver connect a_note = Inl (AttributeError ''pk_field'')
   \<and> Session_delete ok_driver connect a_note = Inl (AttributeError ''pk_field'')"
proof -
  have 1: "\<forall>f \<in> set (m_fields Note). \<not> primary_key f" by (simp add: Note_model)
  have 2: "Model_init Note [(''body'', PStr ''hello'')] = Inr a_note"
    by (simp add: a_note_instance a_note_value)
  from write_without_primary_key [OF 1 2, of ok_driver connect]
  obtain a where a: "Session_insert ok_driver connect a_note = Inl (AttributeError a)"
     "Session_update ok_driver connect a_note = Inl (AttributeError a)"
     "Session_delete ok_driver connect a_note = Inl (AttributeError a)" by blast
  have "Session_insert ok_driver connect a_note = Inl (AttributeError ''pk_field'')"
    unfolding a_note_value
    by (simp add: Session_insert_def pk_field_def getattr_def class_field_def Note_model)
  with a show ?thesis by simp
qed

section \<open>Session.insert\<close>














section \<open>Constructed instances and declared models\<close>

text \<open>
  Where the premises of the statement about \<^verbatim>\<open>insert\<close> come from: \<^verbatim>\<open>Model.__init__\<close> binds
  \<^verbatim>\<open>pk_field\<close> to the first field flagged primary key, and the metaclass gives every field
  of a declared model its attribute name and its column name.
\<close>

lemma setattr_kwargs_model:
  "setattr_kwargs kwargs inst = Inr inst' \<Longrightarrow> model_of inst' = model_of inst"
  by (induction kwargs arbitrary: inst) (auto simp: setattr_value)

lemma Model_init_pk_field:
  assumes "first_index primary_key (m_fields m) = Some i" and "Model_init m kwargs = Inr inst"
  shows "getattr inst ''pk_field'' = Inr (FieldRef i) \<and> model_of inst = m
           \<and> i < length (m_fields (model_of inst))"
proof -
  from assms obtain d inst0 where
    k: "setattr_kwargs kwargs \<lparr> model_of = m, inst_dict = d \<rparr> = Inr inst0"
    and s: "inst = inst0\<lparr> inst_dict := (inst_dict inst0)(''pk_field'' \<mapsto> FieldRef i) \<rparr>"
    by (auto simp: Model_init_def setattr_value split: sum.splits)
  from k have "model_of inst0 = m" by (auto dest: setattr_kwargs_model)
  with s assms(1) show ?thesis by (auto simp: getattr_value dest: first_index_Some)
qed

lemma attached_fields:
  "\<forall>f \<in> set (fst (collect_fields (auto_column_name d) t)). attr_name f \<noteq> None \<and> name f \<noteq> None"
  by (induction d rule: auto_column_name.induct) (auto simp: attach_def split: option.splits)

lemma declared_fields_attached:
  assumes "ModelMetaClass_init md d = (md', Some m)"
  shows "\<forall>f \<in> set (m_fields m). attr_name f \<noteq> None \<and> name f \<noteq> None"
proof (cases "\<exists>t. get_table_name d = Some (AStr t) \<and> t \<noteq> []")
  case True
  then obtain t where "get_table_name d = Some (AStr t)" "t \<noteq> []" by blast
  with assms have "m_fields m = fst (collect_fields (auto_column_name d) t)"
    by (auto simp: ModelMetaClass_init_def Let_def split_beta)
  with attached_fields [of d t] show ?thesis by simp
next
  case False
  then have "ModelMetaClass_init md d = (md, None)" by (rule undeclared)
  with assms show ?thesis by simp
qed

text \<open>
  \<^verbatim>\<open>Session.delete\<close> does what is expected of it when the column name of the primary key can
  be read as an attribute of the instance, as it can when the column name was inferred from
  the attribute name: the statement is executed with the value bound and the attribute is
  set to \<^verbatim>\<open>None\<close>.
\<close>

lemma delete_by_attribute_name:
  assumes pk: "getattr inst ''pk_field'' = Inr (FieldRef i)"
      and i: "i < length (m_fields (model_of inst))"
      and nm: "name (m_fields (model_of inst) ! i) = Some a"
      and pv: "getattr inst a = Inr pk_value"
      and drv: "drv (history s) (''DELETE FROM '' @ m_table_name (model_of inst) @ '' WHERE '' @ a @ '' = %s'')
                    [pk_value] = Inr rows"
  shows "Session_delete drv s inst
           = Inr (s\<lparr> history := history s @ [Execute (''DELETE FROM '' @ m_table_name (model_of inst)
                                                         @ '' WHERE '' @ a @ '' = %s'') [pk_value]],
                     result := rows \<rparr>,
                  inst\<lparr> inst_dict := (inst_dict inst)(a \<mapsto> Val PNone) \<rparr>)"
  using pk i nm pv drv
  by (simp add: Session_delete_def pk_field_def Session_execute_def setattr_value Let_def)

end
